theory Spec2Isabelle
  imports Complex_Main "HOL-Library.Word"
begin

section \<open>Data model\<close>

text \<open>
  The backend keeps its users in one document collection. Two versions of the server
  are covered: \<^verbatim>\<open>server.js\<close>, whose password recovery mails a six-digit code
  (routes \<^verbatim>\<open>/request-reset\<close> and \<^verbatim>\<open>/verify-reset\<close>), and the second source
  file, whose password recovery mails a random token (routes \<^verbatim>\<open>/forgot-password\<close>
  and \<^verbatim>\<open>/reset-password/:token\<close>). The two user schemas share the paths of
  \<open>user_common\<close> and differ in the paths that follow them.

  A path of type String is a \<open>string option\<close>: \<open>None\<close> is JavaScript's
  \<^verbatim>\<open>undefined\<close>, the value of a path that the document does not have. A Date is the
  number of milliseconds it stands for, which is what \<^verbatim>\<open><\<close> and \<^verbatim>\<open>></\<close> compare
  it by. The two enumerated paths are datatypes. \<open>uid\<close> is the document's \<^verbatim>\<open>_id\<close>.
  The bookkeeping paths \<^verbatim>\<open>createdAt\<close> and \<^verbatim>\<open>updatedAt\<close> that the document library
  maintains are not part of the model.
\<close>

datatype role = Admin | UserRole

datatype status = Pending | Approved

record user_common =
  uid :: string
  name :: "string option"
  email :: "string option"
  password :: "string option"
  phone :: "string option"
  role :: role
  avatar :: "string option"
  status :: status
  validId :: "string option"
  selfie :: "string option"

text \<open>The schema of \<^verbatim>\<open>server.js\<close> (code scheme).\<close>

record user = user_common +
  age :: "string option"
  gender :: "string option"
  resetCode :: "string option"
  resetCodeExpires :: "int option"

text \<open>The schema of the second source file (token scheme).\<close>

record token_user = user_common +
  resetPasswordToken :: "string option"
  resetPasswordExpires :: "int option"

text \<open>
  A request body is the object that the JSON middleware parsed: a field is absent
  (\<^verbatim>\<open>undefined\<close>) or a string.
\<close>

type_synonym json_body = "string \<Rightarrow> string option"

text \<open>What a handler can throw, and what it answers.\<close>

datatype exn = ValidationError | CastError | IllegalArguments

record login_info =
  li_token :: string
  li_userId :: string
  li_name :: "string option"
  li_email :: "string option"
  li_phone :: "string option"
  li_chatToken :: string

datatype body =
    ErrorBody string
  | ErrorDetails string exn
  | MessageBody string
  | SuccessBody bool string
  | LoginBody login_info
  | UserBody "user option"

text \<open>
  \<open>Response code b\<close> is \<^verbatim>\<open>res.status(code).json(b)\<close>. \<open>Unhandled\<close> is a handler whose
  promise was rejected outside any \<^verbatim>\<open>try\<close>: no response is sent.
\<close>

datatype response = Response nat body | Unhandled

record mail =
  mail_to :: "string option"
  mail_subject :: string
  mail_html :: string

text \<open>
  The collaborators that the handlers call and do not implement: password hashing and
  verification, the signing of the session token, the chat provider, the mail
  transport, and the document library's cast of a string to a document id. They are
  parameters of every handler. An operation that can throw returns an option
  (\<open>None\<close>) or a truth value (\<open>False\<close>).
\<close>

record env =
  bhash :: "string \<Rightarrow> string"
  bcompare :: "string \<Rightarrow> string \<Rightarrow> bool"
  jwtSign :: "string \<Rightarrow> string option"
  upsertUser :: "string \<Rightarrow> string option \<Rightarrow> bool"
  createToken :: "string \<Rightarrow> string option"
  sendMail :: "mail \<Rightarrow> bool"
  validObjectId :: "string \<Rightarrow> bool"

section \<open>The document store\<close>

text \<open>
  A collection is the list of its documents. \<^verbatim>\<open>findOne(filter)\<close> answers the first
  document that satisfies the filter, or \<^verbatim>\<open>null\<close>. A filter \<^verbatim>\<open>{path: v}\<close> compares
  the path with \<open>v\<close>; with \<open>v\<close> undefined it selects the documents that lack the path.
\<close>

definition findOne :: "('a \<Rightarrow> bool) \<Rightarrow> 'a list \<Rightarrow> 'a option" where
  "findOne p db = List.find p db"

text \<open>
  \<^verbatim>\<open>findById\<close> first casts the string to a document id and throws when it cannot.
\<close>

definition findById :: "env \<Rightarrow> 'a user_common_scheme list \<Rightarrow> string \<Rightarrow> exn + 'a user_common_scheme option" where
  "findById e db i =
     (if validObjectId e i then Inr (findOne (\<lambda>u. uid u = i) db) else Inl CastError)"

text \<open>
  JavaScript's truthiness of a value that is undefined or a string, which is also the
  test of the schema's \<^verbatim>\<open>required: true\<close> on a String path.
\<close>

definition truthy :: "string option \<Rightarrow> bool" where
  "truthy v = (case v of None \<Rightarrow> False | Some s \<Rightarrow> s \<noteq> [])"

text \<open>The required paths of the two schemas.\<close>

definition validate_common :: "'a user_common_scheme \<Rightarrow> bool" where
  "validate_common u = (truthy (name u) \<and> truthy (email u) \<and> truthy (password u) \<and> truthy (phone u))"

definition validate :: "user \<Rightarrow> bool" where
  "validate u = (validate_common u \<and> truthy (age u) \<and> truthy (gender u))"

definition validate_token_user :: "token_user \<Rightarrow> bool" where
  "validate_token_user u = validate_common u"

text \<open>
  \<^verbatim>\<open>doc.save()\<close> validates the document against the schema and throws when a required
  path is missing. A new document is inserted; a document that was read from the
  collection replaces the stored document of the same \<^verbatim>\<open>_id\<close>.
\<close>

definition insert_doc :: "('a \<Rightarrow> bool) \<Rightarrow> 'a \<Rightarrow> 'a list \<Rightarrow> exn + 'a list" where
  "insert_doc valid u db = (if valid u then Inr (db @ [u]) else Inl ValidationError)"

definition replace_doc :: "'a user_common_scheme \<Rightarrow> 'a user_common_scheme list \<Rightarrow> 'a user_common_scheme list" where
  "replace_doc u db = map (\<lambda>v. if uid v = uid u then u else v) db"

definition save :: "('a user_common_scheme \<Rightarrow> bool) \<Rightarrow> 'a user_common_scheme \<Rightarrow> 'a user_common_scheme list
    \<Rightarrow> exn + 'a user_common_scheme list" where
  "save valid u db = (if valid u then Inr (replace_doc u db) else Inl ValidationError)"

text \<open>
  \<^verbatim>\<open>findByIdAndUpdate(id, {avatar})\<close> casts the id, sets the path in the document of that
  id if there is one, and runs no validation. A key whose value is \<^verbatim>\<open>undefined\<close> is
  dropped from the update, which then changes nothing.
\<close>

definition findByIdAndUpdate_avatar :: "env \<Rightarrow> string \<Rightarrow> string option \<Rightarrow> user list \<Rightarrow> exn + user list" where
  "findByIdAndUpdate_avatar e i a db =
     (if validObjectId e i
      then Inr (case findOne (\<lambda>u. uid u = i) db of
                  None \<Rightarrow> db
                | Some u \<Rightarrow> (case a of
                     None \<Rightarrow> db
                   | Some v \<Rightarrow> replace_doc (u\<lparr>avatar := Some v\<rparr>) db))
      else Inl CastError)"

text \<open>\<^verbatim>\<open>bcrypt.hash\<close> and \<^verbatim>\<open>bcrypt.compare\<close> throw on an argument that is not a string.\<close>

definition bcrypt_hash :: "env \<Rightarrow> string option \<Rightarrow> exn + string" where
  "bcrypt_hash e pw = (case pw of None \<Rightarrow> Inl IllegalArguments | Some s \<Rightarrow> Inr (bhash e s))"

definition bcrypt_compare :: "env \<Rightarrow> string option \<Rightarrow> string option \<Rightarrow> exn + bool" where
  "bcrypt_compare e pw digest =
     (case pw of
        None \<Rightarrow> Inl IllegalArguments
      | Some s \<Rightarrow> (case digest of None \<Rightarrow> Inl IllegalArguments | Some d \<Rightarrow> Inr (bcompare e s d)))"

section \<open>Account lifecycle (\<^verbatim>\<open>server.js\<close>)\<close>

text \<open>\<^verbatim>\<open>POST /signup\<close>. \<open>newId\<close> is the \<^verbatim>\<open>_id\<close> that the new document is given.\<close>

definition new_user :: "string \<Rightarrow> json_body \<Rightarrow> string \<Rightarrow> user" where
  "new_user newId b hashedPassword =
     \<lparr>uid = newId, name = b ''name'', email = b ''email'', password = Some hashedPassword,
      phone = b ''phone'', role = UserRole, avatar = None, status = Pending,
      validId = b ''validId'', selfie = b ''selfie'',
      age = None, gender = None, resetCode = None, resetCodeExpires = None\<rparr>"

definition signup :: "env \<Rightarrow> string \<Rightarrow> json_body \<Rightarrow> user list \<Rightarrow> response \<times> user list" where
  "signup e newId b db =
     (if \<not> truthy (b ''name'') \<or> \<not> truthy (b ''email'') \<or> \<not> truthy (b ''password'')
         \<or> \<not> truthy (b ''phone'') \<or> \<not> truthy (b ''validId'') \<or> \<not> truthy (b ''selfie'')
      then (Response 400 (ErrorBody ''Missing email or password''), db)
      else case findOne (\<lambda>u. email u = b ''email'') db of
        Some existingUser \<Rightarrow> (Response 400 (ErrorBody ''User already exists''), db)
      | None \<Rightarrow>
         (case findOne (\<lambda>u. phone u = b ''phone'') db of
            Some existingPhone \<Rightarrow> (Response 400 (ErrorBody ''User already exists''), db)
          | None \<Rightarrow>
             (case bcrypt_hash e (b ''password'') of
                Inl err \<Rightarrow> (Response 500 (ErrorDetails ''Internal server error'' err), db)
              | Inr hashedPassword \<Rightarrow>
                 (case insert_doc validate (new_user newId b hashedPassword) db of
                    Inl err \<Rightarrow> (Response 500 (ErrorDetails ''Internal server error'' err), db)
                  | Inr db' \<Rightarrow> (Response 201 (MessageBody ''Signup successful''), db')))))"

text \<open>\<^verbatim>\<open>POST /login\<close>. The handler writes nothing to the collection.\<close>

definition login :: "env \<Rightarrow> json_body \<Rightarrow> user list \<Rightarrow> response" where
  "login e b db =
     (case findOne (\<lambda>u. email u = b ''email'') db of
        None \<Rightarrow> Response 400 (ErrorBody ''Invalid email or password'')
      | Some u \<Rightarrow>
         (case bcrypt_compare e (b ''password'') (password u) of
            Inl err \<Rightarrow> Response 500 (ErrorBody ''Internal server error'')
          | Inr isMatch \<Rightarrow>
             if \<not> isMatch then Response 400 (ErrorBody ''Invalid email or password'')
             else if status u = Pending
             then Response 403 (ErrorBody ''Your account is pending approval'')
             else (case jwtSign e (uid u) of
                None \<Rightarrow> Response 500 (ErrorBody ''Internal server error'')
              | Some token \<Rightarrow>
                 if \<not> upsertUser e (uid u) (name u)
                 then Response 500 (ErrorBody ''Internal server error'')
                 else (case createToken e (uid u) of
                    None \<Rightarrow> Response 500 (ErrorBody ''Internal server error'')
                  | Some chatToken \<Rightarrow>
                     Response 200 (LoginBody
                       \<lparr>li_token = token, li_userId = uid u, li_name = name u,
                        li_email = email u, li_phone = phone u, li_chatToken = chatToken\<rparr>)))))"

text \<open>\<^verbatim>\<open>GET /api/users/:id\<close>; \<^verbatim>\<open>select("-password")\<close> drops the credential.\<close>

definition get_user :: "env \<Rightarrow> string \<Rightarrow> user list \<Rightarrow> response" where
  "get_user e i db =
     (case findById e db i of
        Inl err \<Rightarrow> Response 500 (ErrorBody ''Error fetching user data'')
      | Inr r \<Rightarrow> Response 200 (UserBody (map_option (\<lambda>u. u\<lparr>password := None\<rparr>) r)))"

text \<open>\<^verbatim>\<open>POST /api/users/:id/avatar\<close>: the result of the update is not looked at.\<close>

definition update_avatar :: "env \<Rightarrow> string \<Rightarrow> json_body \<Rightarrow> user list \<Rightarrow> response \<times> user list" where
  "update_avatar e i b db =
     (case findByIdAndUpdate_avatar e i (b ''avatar'') db of
        Inl err \<Rightarrow> (Response 500 (ErrorBody ''Failed to update avatar''), db)
      | Inr db' \<Rightarrow> (Response 200 (MessageBody ''Avatar updated''), db'))"

section \<open>Numbers and strings of the runtime\<close>

text \<open>
  A JavaScript number is an IEEE 754 double. For \<open>0 \<le> x < 2 ^ 1024\<close>, \<open>fl x\<close> is
  the double nearest to the real \<open>x\<close>, ties going to the even significand: \<open>binade x\<close>
  is the exponent \<open>e\<close> with \<open>2 ^ e \<le> x < 2 ^ (e + 1)\<close>, no smaller than the exponent
  \<open>-1022\<close> of the subnormal numbers, and the doubles of that binade are the multiples
  of \<open>2 ^ (e - 52)\<close>. An arithmetic operation of the runtime is the exact operation
  followed by \<open>fl\<close>. A real is a double when \<open>fl\<close> leaves it as it is.
\<close>

fun binade_from :: "nat \<Rightarrow> real \<Rightarrow> int" where
  "binade_from 0 x = - 1022"
| "binade_from (Suc n) x = (if 2 powi (int n - 1021) \<le> x then int n - 1021 else binade_from n x)"

definition binade :: "real \<Rightarrow> int" where
  "binade x = binade_from 2045 x"

definition round_half_even :: "real \<Rightarrow> int" where
  "round_half_even y =
     (let f = \<lfloor>y\<rfloor>
      in if y - of_int f < 1 / 2 then f
         else if 1 / 2 < y - of_int f then f + 1
         else if even f then f else f + 1)"

definition fl :: "real \<Rightarrow> real" where
  "fl x = (let u = 2 powi (binade x - 52) in of_int (round_half_even (x / u)) * u)"

definition is_double :: "real \<Rightarrow> bool" where
  "is_double x = (fl x = x)"

text \<open>\<^verbatim>\<open>Number.prototype.toString\<close> on an integer below \<open>10 ^ 21\<close>: its decimal digits.\<close>

definition digit_char :: "nat \<Rightarrow> char" where
  "digit_char d = ''0123456789'' ! d"

fun digits :: "nat \<Rightarrow> string" where
  "digits n = (if n < 10 then [digit_char n] else digits (n div 10) @ [digit_char (n mod 10)])"

declare digits.simps [simp del]

definition toString :: "int \<Rightarrow> string" where
  "toString i = (if i < 0 then CHR ''-'' # digits (nat (- i)) else digits (nat i))"

definition is_digit :: "char \<Rightarrow> bool" where
  "is_digit c = (c \<in> set ''0123456789'')"

text \<open>The number that a string of decimal digits denotes, to state what a code is.\<close>

definition digit_value :: "char \<Rightarrow> nat" where
  "digit_value c = of_char c - 48"

definition decimal :: "string \<Rightarrow> nat" where
  "decimal s = foldl (\<lambda>n c. 10 * n + digit_value c) 0 s"




section \<open>Password recovery, code scheme (\<^verbatim>\<open>server.js\<close>)\<close>

text \<open>
  \<^verbatim>\<open>Math.floor(100000 + Math.random() * 900000).toString()\<close>, where \<open>r\<close> is the value
  of \<^verbatim>\<open>Math.random()\<close>, a double with \<open>0 \<le> r < 1\<close>.
\<close>

definition code_number :: "real \<Rightarrow> int" where
  "code_number r = \<lfloor>fl (100000 + fl (r * 900000))\<rfloor>"

definition gen_code :: "real \<Rightarrow> string" where
  "gen_code r = toString (code_number r)"

text \<open>A Date compared with a number; a comparison with \<^verbatim>\<open>undefined\<close> is false.\<close>

definition date_gt :: "int option \<Rightarrow> int \<Rightarrow> bool" where
  "date_gt d n = (case d of None \<Rightarrow> False | Some t \<Rightarrow> n < t)"

definition date_lt :: "int option \<Rightarrow> int \<Rightarrow> bool" where
  "date_lt d n = (case d of None \<Rightarrow> False | Some t \<Rightarrow> t < n)"

definition code_mail :: "string option \<Rightarrow> string \<Rightarrow> mail" where
  "code_mail rcpt code =
     \<lparr>mail_to = rcpt, mail_subject = ''Your ChildGuard Reset Code'',
      mail_html = ''<h3>Your reset code is: <b>'' @ code @ ''</b></h3><p>It expires in 10 minutes.</p>''\<rparr>"

text \<open>
  \<^verbatim>\<open>POST /request-reset\<close>. \<open>r\<close> is the value of \<^verbatim>\<open>Math.random()\<close>; \<open>now1\<close> and
  \<open>now2\<close> are the two readings of \<^verbatim>\<open>Date.now()\<close>, the first in the test of the pending
  code and the second when the expiry is set. The handler has no \<^verbatim>\<open>try\<close>.
\<close>

definition request_reset :: "env \<Rightarrow> real \<Rightarrow> int \<Rightarrow> int \<Rightarrow> json_body \<Rightarrow> user list \<Rightarrow> response \<times> user list" where
  "request_reset e r now1 now2 b db =
     (case findOne (\<lambda>u. email u = b ''email'') db of
        None \<Rightarrow> (Response 404 (SuccessBody False ''User not found with that email''), db)
      | Some u \<Rightarrow>
         if resetCodeExpires u \<noteq> None \<and> date_gt (resetCodeExpires u) now1
         then (Response 429 (SuccessBody False ''Please wait before requesting a new code.''), db)
         else
           (let code = gen_code r
            in case save validate
                      (u\<lparr>resetCode := Some code, resetCodeExpires := Some (now2 + 10 * 60 * 1000)\<rparr>) db of
                 Inl err \<Rightarrow> (Unhandled, db)
               | Inr db' \<Rightarrow>
                  if sendMail e (code_mail (b ''email'') code)
                  then (Response 200 (SuccessBody True ''Reset code sent to email''), db')
                  else (Response 500 (MessageBody ''Failed to send email''), db')))"

text \<open>
  \<^verbatim>\<open>POST /verify-reset\<close>. \<open>now1\<close> and \<open>now2\<close> are the readings of \<^verbatim>\<open>Date.now()\<close> in
  the first and in the second test of the expiry. The handler has no \<^verbatim>\<open>try\<close>.
\<close>

definition verify_reset :: "env \<Rightarrow> int \<Rightarrow> int \<Rightarrow> json_body \<Rightarrow> user list \<Rightarrow> response \<times> user list" where
  "verify_reset e now1 now2 b db =
     (case findOne (\<lambda>u. email u = b ''email'') db of
        None \<Rightarrow> (Response 400 (SuccessBody False ''Invalid or expired code''), db)
      | Some u \<Rightarrow>
         if resetCode u \<noteq> b ''code'' \<or> date_lt (resetCodeExpires u) now1
         then (Response 400 (SuccessBody False ''Invalid or expired code''), db)
         else if date_lt (resetCodeExpires u) now2
         then (Response 400 (MessageBody ''Code expired''), db)
         else
           (case bcrypt_hash e (b ''password'') of
              Inl err \<Rightarrow> (Unhandled, db)
            | Inr hashed \<Rightarrow>
               (case save validate
                       (u\<lparr>password := Some hashed, resetCode := None, resetCodeExpires := None\<rparr>) db of
                  Inl err \<Rightarrow> (Unhandled, db)
                | Inr db' \<Rightarrow> (Response 200 (SuccessBody True ''Password reset successfully''), db'))))"

section \<open>Password recovery, token scheme (second source file)\<close>




text \<open>
  \<^verbatim>\<open>POST /reset-password/:token\<close>. The filter asks for the token and for an expiry
  greater than \<^verbatim>\<open>Date.now()\<close>; a document without expiry does not match \<^verbatim>\<open>$gt\<close>.
\<close>

definition token_filter :: "string \<Rightarrow> int \<Rightarrow> token_user \<Rightarrow> bool" where
  "token_filter token now u = (resetPasswordToken u = Some token \<and> date_gt (resetPasswordExpires u) now)"

definition reset_password :: "env \<Rightarrow> int \<Rightarrow> string \<Rightarrow> json_body \<Rightarrow> token_user list
    \<Rightarrow> response \<times> token_user list" where
  "reset_password e now token b db =
     (case findOne (token_filter token now) db of
        None \<Rightarrow> (Response 400 (MessageBody ''Invalid or expired token''), db)
      | Some u \<Rightarrow>
         (case bcrypt_hash e (b ''password'') of
            Inl err \<Rightarrow> (Response 500 (MessageBody ''Internal server error''), db)
          | Inr hashed \<Rightarrow>
             (case save validate_token_user
                     (u\<lparr>password := Some hashed, resetPasswordToken := None, resetPasswordExpires := None\<rparr>) db of
                Inl err \<Rightarrow> (Response 500 (MessageBody ''Internal server error''), db)
              | Inr db' \<Rightarrow> (Response 200 (MessageBody ''Password has been reset successfully''), db'))))"

section \<open>Example data\<close>

text \<open>
  A concrete environment and concrete documents, on which the theorems below are
  instantiated. The example hash prefixes the password with \<open>#\<close>.
\<close>

definition ex_env :: env where
  "ex_env = \<lparr>bhash = (\<lambda>s. ''#'' @ s), bcompare = (\<lambda>s d. d = ''#'' @ s),
     jwtSign = (\<lambda>i. Some (''jwt:'' @ i)), upsertUser = (\<lambda>i n. True),
     createToken = (\<lambda>i. Some (''chat:'' @ i)), sendMail = (\<lambda>m. True),
     validObjectId = (\<lambda>i. length i = 4)\<rparr>"

definition ex_user :: user where
  "ex_user = \<lparr>uid = ''id01'', name = Some ''Ana'', email = Some ''a@x.com'', password = Some ''#old'',
     phone = Some ''555'', role = UserRole, avatar = None, status = Pending,
     validId = Some ''doc'', selfie = Some ''img'', age = Some ''30'', gender = Some ''f'',
     resetCode = Some ''123456'', resetCodeExpires = Some 1000\<rparr>"

definition ex_token_user :: token_user where
  "ex_token_user = \<lparr>uid = ''id01'', name = Some ''Ana'', email = Some ''a@x.com'', password = Some ''#old'',
     phone = Some ''555'', role = UserRole, avatar = None, status = Approved,
     validId = Some ''doc'', selfie = Some ''img'',
     resetPasswordToken = Some ''ab'', resetPasswordExpires = Some 1000\<rparr>"

definition ex_body :: "string \<Rightarrow> string \<Rightarrow> json_body" where
  "ex_body code pw = [''email'' \<mapsto> ''a@x.com'', ''code'' \<mapsto> code, ''password'' \<mapsto> pw]"

text \<open>The largest double below 1.\<close>

definition max_random :: real where
  "max_random = 1 - 1 / 2 ^ 53"

definition ex_signup_body :: json_body where
  "ex_signup_body = [''name'' \<mapsto> ''Bea'', ''email'' \<mapsto> ''b@x.com'', ''password'' \<mapsto> ''pw'',
     ''phone'' \<mapsto> ''556'', ''validId'' \<mapsto> ''doc'', ''selfie'' \<mapsto> ''img'']"

section \<open>Facts about the store\<close>

lemma findOne_None_iff: "findOne p db = None \<longleftrightarrow> (\<forall>u\<in>set db. \<not> p u)"
  by (auto simp: findOne_def find_None_iff)

lemma findOne_SomeD: "findOne p db = Some u \<Longrightarrow> u \<in> set db \<and> p u"
  by (auto simp: findOne_def find_Some_iff)

lemma findOne_replace_doc:
  assumes "findOne p db = Some u" and "p u'" and "uid u' = uid u"
  shows "findOne p (replace_doc u' db) = Some u'"
  using assms unfolding findOne_def replace_doc_def
  by (induction db) (auto split: if_splits)

lemma replace_doc_other:
  "uid v \<noteq> uid u' \<Longrightarrow> v \<in> set (replace_doc u' db) \<longleftrightarrow> v \<in> set db"
  unfolding replace_doc_def by auto

lemma replace_doc_same:
  "v \<in> set (replace_doc u' db) \<Longrightarrow> uid v = uid u' \<Longrightarrow> v = u'"
  unfolding replace_doc_def by auto

section \<open>Completing a reset\<close>

lemma verify_reset_no_user:
  "findOne (\<lambda>u. email u = b ''email'') db = None \<Longrightarrow>
   verify_reset e now1 now2 b db = (Response 400 (SuccessBody False ''Invalid or expired code''), db)"
  by (simp add: verify_reset_def)

lemma verify_reset_mismatch:
  "findOne (\<lambda>u. email u = b ''email'') db = Some u \<Longrightarrow> resetCode u \<noteq> b ''code'' \<Longrightarrow>
   verify_reset e now1 now2 b db = (Response 400 (SuccessBody False ''Invalid or expired code''), db)"
  by (simp add: verify_reset_def)

lemma reset_password_no_match:
  assumes "\<forall>u\<in>set tdb. resetPasswordToken u \<noteq> Some token"
  shows "reset_password e now token b tdb = (Response 400 (MessageBody ''Invalid or expired token''), tdb)"
proof -
  from assms have "findOne (token_filter token now) tdb = None"
    by (simp add: findOne_None_iff token_filter_def)
  then show ?thesis by (simp add: reset_password_def)
qed

lemma verify_reset_success:
  assumes "verify_reset e now1 now2 b db = (Response 200 m, db')"
  shows "\<exists>u pw. findOne (\<lambda>u. email u = b ''email'') db = Some u \<and> b ''password'' = Some pw
      \<and> resetCode u = b ''code''
      \<and> db' = replace_doc (u\<lparr>password := Some (bhash e pw), resetCode := None, resetCodeExpires := None\<rparr>) db
      \<and> m = SuccessBody True ''Password reset successfully''"
  using assms unfolding verify_reset_def bcrypt_hash_def save_def
  by (auto split: option.splits if_splits sum.splits)

lemma reset_password_success:
  assumes "reset_password e now token b tdb = (Response 200 m, tdb')"
  shows "\<exists>u pw. findOne (token_filter token now) tdb = Some u \<and> b ''password'' = Some pw
      \<and> tdb' = replace_doc (u\<lparr>password := Some (bhash e pw), resetPasswordToken := None, resetPasswordExpires := None\<rparr>) tdb
      \<and> m = MessageBody ''Password has been reset successfully''"
  using assms unfolding reset_password_def bcrypt_hash_def save_def
  by (auto split: option.splits if_splits sum.splits)

lemma verify_reset_stored:
  assumes "verify_reset e now1 now2 b db = (Response 200 m, db')"
  shows "\<exists>u pw. findOne (\<lambda>u. email u = b ''email'') db = Some u \<and> b ''password'' = Some pw
      \<and> findOne (\<lambda>u. email u = b ''email'') db'
          = Some (u\<lparr>password := Some (bhash e pw), resetCode := None, resetCodeExpires := None\<rparr>)"
proof -
  from verify_reset_success [OF assms] obtain u pw where
    u: "findOne (\<lambda>u. email u = b ''email'') db = Some u" and pw: "b ''password'' = Some pw"
    and db': "db' = replace_doc (u\<lparr>password := Some (bhash e pw), resetCode := None, resetCodeExpires := None\<rparr>) db"
    by blast
  from findOne_SomeD [OF u] have "email u = b ''email''" by simp
  then have "findOne (\<lambda>u. email u = b ''email'') db'
      = Some (u\<lparr>password := Some (bhash e pw), resetCode := None, resetCodeExpires := None\<rparr>)"
    unfolding db' by (intro findOne_replace_doc [OF u]) simp_all
  with u pw show ?thesis by blast
qed

lemma reset_password_stored:
  assumes "reset_password e now token b tdb = (Response 200 m, tdb')"
  shows "\<exists>u pw. findOne (token_filter token now) tdb = Some u \<and> b ''password'' = Some pw
      \<and> findOne (\<lambda>v. uid v = uid u) tdb'
          = Some (u\<lparr>password := Some (bhash e pw), resetPasswordToken := None, resetPasswordExpires := None\<rparr>)"
proof -
  from reset_password_success [OF assms] obtain u pw where
    u: "findOne (token_filter token now) tdb = Some u" and pw: "b ''password'' = Some pw"
    and db': "tdb' = replace_doc (u\<lparr>password := Some (bhash e pw), resetPasswordToken := None, resetPasswordExpires := None\<rparr>) tdb"
    by blast
  from findOne_SomeD [OF u] have "u \<in> set tdb" by simp
  then obtain w where w: "findOne (\<lambda>v. uid v = uid u) tdb = Some w"
    by (cases "findOne (\<lambda>v. uid v = uid u) tdb") (auto simp: findOne_None_iff)
  from findOne_SomeD [OF w] have "uid w = uid u" by simp
  then have "findOne (\<lambda>v. uid v = uid u) tdb'
      = Some (u\<lparr>password := Some (bhash e pw), resetPasswordToken := None, resetPasswordExpires := None\<rparr>)"
    unfolding db' by (intro findOne_replace_doc [OF w]) simp_all
  with u pw show ?thesis by blast
qed

lemma ex_verify_reset_ok:
  "verify_reset ex_env 500 501 (ex_body ''123456'' ''new'') [ex_user]
     = (Response 200 (SuccessBody True ''Password reset successfully''),
        [ex_user\<lparr>password := Some ''#new'', resetCode := None, resetCodeExpires := None\<rparr>])"
  by (simp add: verify_reset_def findOne_def ex_body_def ex_user_def ex_env_def date_lt_def
      bcrypt_hash_def save_def validate_def validate_common_def truthy_def replace_doc_def)

lemma ex_reset_password_ok:
  "reset_password ex_env 500 ''ab'' (ex_body ''x'' ''new'') [ex_token_user]
     = (Response 200 (MessageBody ''Password has been reset successfully''),
        [ex_token_user\<lparr>password := Some ''#new'', resetPasswordToken := None, resetPasswordExpires := None\<rparr>])"
  by (simp add: reset_password_def findOne_def ex_body_def ex_token_user_def ex_env_def date_gt_def
      token_filter_def bcrypt_hash_def save_def validate_token_user_def validate_common_def truthy_def replace_doc_def)

lemma filter_replace_doc_other:
  "uid u' \<noteq> i \<Longrightarrow> filter (\<lambda>v. uid v = i) (replace_doc u' db) = filter (\<lambda>v. uid v = i) db"
  unfolding replace_doc_def by (induction db) auto

lemma verify_reset_again:
  assumes ok: "verify_reset e now1 now2 b db = (Response 200 m, db')"
    and same: "b2 ''email'' = b ''email''" and code: "b2 ''code'' = Some s"
  shows "verify_reset e2 now3 now4 b2 db' = (Response 400 (SuccessBody False ''Invalid or expired code''), db')"
proof -
  from verify_reset_stored [OF ok] obtain u pw where
    "findOne (\<lambda>u. email u = b ''email'') db'
       = Some (u\<lparr>password := Some (bhash e pw), resetCode := None, resetCodeExpires := None\<rparr>)"
    by blast
  with same have "findOne (\<lambda>u. email u = b2 ''email'') db'
       = Some (u\<lparr>password := Some (bhash e pw), resetCode := None, resetCodeExpires := None\<rparr>)"
    by simp
  then show ?thesis
    by (rule verify_reset_mismatch) (simp add: code)
qed

lemma reset_password_clears_user:
  assumes ok: "reset_password e now token b tdb = (Response 200 m, tdb')"
    and u: "findOne (token_filter token now) tdb = Some u"
    and v: "v \<in> set tdb'" "uid v = uid u"
  shows "resetPasswordToken v = None"
proof -
  from reset_password_success [OF ok] u obtain pw where
    "tdb' = replace_doc (u\<lparr>password := Some (bhash e pw), resetPasswordToken := None, resetPasswordExpires := None\<rparr>) tdb"
    by auto
  with v have "v = u\<lparr>password := Some (bhash e pw), resetPasswordToken := None, resetPasswordExpires := None\<rparr>"
    by (auto dest: replace_doc_same)
  then show ?thesis by simp
qed

lemma reset_password_others_kept:
  assumes ok: "reset_password e now token b tdb = (Response 200 m, tdb')"
    and u: "findOne (token_filter token now) tdb = Some u"
    and v: "v \<in> set tdb'" "uid v \<noteq> uid u"
  shows "v \<in> set tdb"
proof -
  from reset_password_success [OF ok] u obtain pw where
    "tdb' = replace_doc (u\<lparr>password := Some (bhash e pw), resetPasswordToken := None, resetPasswordExpires := None\<rparr>) tdb"
    by auto
  with v show ?thesis by (simp add: replace_doc_other)
qed

lemma reset_password_frame:
  assumes "\<forall>v\<in>set tdb. uid v = i \<longrightarrow> resetPasswordToken v \<noteq> Some token"
  shows "filter (\<lambda>v. uid v = i) (snd (reset_password e now token b tdb)) = filter (\<lambda>v. uid v = i) tdb"
proof (cases "findOne (token_filter token now) tdb")
  case None
  then show ?thesis by (simp add: reset_password_def)
next
  case (Some w)
  from findOne_SomeD [OF Some] have "w \<in> set tdb" "resetPasswordToken w = Some token"
    by (simp_all add: token_filter_def)
  with assms have "uid w \<noteq> i" by blast
  then show ?thesis
    using Some
    by (auto simp: reset_password_def save_def filter_replace_doc_other split: sum.splits)
qed

text \<open>
  A secret that differs from the stored one is rejected. The answer is invalid-or-expired
  and the collection stays as it was whenever no user matches the identifier, or the
  stored and the supplied value differ. In the code scheme the identifier is the email
  and the comparison is \<^verbatim>\<open>!==\<close> on the stored and the supplied code; in the token
  scheme the identifier is the token, compared by the filter of the query. Between two
  strings both are equality of strings, so a secret that differs in the case of a
  letter is rejected.
\<close>

lemma mismatch_is_rejected:
  "((findOne (\<lambda>u. email u = b ''email'') db = None
      \<or> (\<exists>u. findOne (\<lambda>u. email u = b ''email'') db = Some u \<and> resetCode u \<noteq> b ''code''))
     \<longrightarrow> verify_reset e now1 now2 b db = (Response 400 (SuccessBody False ''Invalid or expired code''), db))
   \<and> ((\<forall>u\<in>set tdb. resetPasswordToken u \<noteq> Some token)
     \<longrightarrow> reset_password e now token tb tdb = (Response 400 (MessageBody ''Invalid or expired token''), tdb))"
  using verify_reset_no_user verify_reset_mismatch reset_password_no_match by blast

lemma mismatch_is_rejected_example:
  "verify_reset ex_env 500 500 (ex_body ''123457'' ''new'') [ex_user]
       = (Response 400 (SuccessBody False ''Invalid or expired code''), [ex_user])
   \<and> reset_password ex_env 500 ''AB'' (ex_body ''x'' ''new'') [ex_token_user]
       = (Response 400 (MessageBody ''Invalid or expired token''), [ex_token_user])"
  using mismatch_is_rejected [where b = "ex_body ''123457'' ''new''" and db = "[ex_user]" and e = ex_env
      and ?now1.0 = 500 and ?now2.0 = 500 and tdb = "[ex_token_user]" and token = "''AB''" and now = 500
      and tb = "ex_body ''x'' ''new''"]
  by (simp add: findOne_def ex_body_def ex_user_def ex_token_user_def)

text \<open>
  The comparison of the code scheme is not between two strings when the user has no
  reset pending and the request carries no code: \<^verbatim>\<open>undefined !== undefined\<close> is false,
  and so is \<^verbatim>\<open>undefined < Date.now()\<close>. For every such user whose document is valid,
  and every request that names the user and a new password, the handler overwrites the
  password, at any time.
\<close>

lemma verify_reset_without_code:
  assumes u: "findOne (\<lambda>u. email u = b ''email'') db = Some u"
    and stored: "resetCode u = None" "resetCodeExpires u = None"
    and supplied: "b ''code'' = None" "b ''password'' = Some pw"
    and valid: "validate u" "bhash e pw \<noteq> []"
  shows "verify_reset e now1 now2 b db
     = (Response 200 (SuccessBody True ''Password reset successfully''),
        replace_doc (u\<lparr>password := Some (bhash e pw)\<rparr>) db)"
proof -
  have same: "u\<lparr>password := Some (bhash e pw), resetCode := None, resetCodeExpires := None\<rparr>
      = u\<lparr>password := Some (bhash e pw)\<rparr>"
    using stored by simp
  from valid have "validate (u\<lparr>password := Some (bhash e pw)\<rparr>)"
    by (simp add: validate_def validate_common_def truthy_def)
  with u stored supplied show ?thesis
    by (simp add: verify_reset_def date_lt_def bcrypt_hash_def save_def same)
qed

text \<open>
  Claim C1, for a request without code. The user has no reset pending, so no secret is
  stored, and the request carries an email and a new password and no code, so no secret
  is supplied. The claim asks for the invalid-or-expired answer and for no update of the
  password; the handler of the code scheme answers 200 and overwrites the password.
\<close>

theorem C1_reset_without_code:
  "resetCode (ex_user\<lparr>resetCode := None, resetCodeExpires := None\<rparr>) = None
   \<and> [''email'' \<mapsto> ''a@x.com'', ''password'' \<mapsto> ''new''] ''code'' = None
   \<and> verify_reset ex_env 1000 1000 [''email'' \<mapsto> ''a@x.com'', ''password'' \<mapsto> ''new'']
       [ex_user\<lparr>resetCode := None, resetCodeExpires := None\<rparr>]
       = (Response 200 (SuccessBody True ''Password reset successfully''),
          [ex_user\<lparr>password := Some ''#new'', resetCode := None, resetCodeExpires := None\<rparr>])"
  by (simp add: verify_reset_def findOne_def ex_user_def ex_env_def date_lt_def
      bcrypt_hash_def save_def validate_def validate_common_def truthy_def replace_doc_def)

theorem C1_reset_without_code_witness:
  "fst (verify_reset ex_env 1000 1000 [''email'' \<mapsto> ''a@x.com'', ''password'' \<mapsto> ''new'']
       [ex_user\<lparr>resetCode := None, resetCodeExpires := None\<rparr>])
     = Response 200 (SuccessBody True ''Password reset successfully'')
   \<and> password (hd (snd (verify_reset ex_env 1000 1000 [''email'' \<mapsto> ''a@x.com'', ''password'' \<mapsto> ''new'']
       [ex_user\<lparr>resetCode := None, resetCodeExpires := None\<rparr>]))) = Some ''#new''"
  using C1_reset_without_code by (simp add: ex_user_def)

text \<open>
  Claim C2, at the instant of expiry. The user holds the code \<open>123456\<close> with expiry
  1000; the request supplies that code and both readings of the clock are 1000, so the
  expiry is not strictly in the future. The handler of the code scheme tests
  \<^verbatim>\<open>resetCodeExpires < Date.now()\<close>, which is false, and resets the password.
\<close>

theorem C2_code_accepted_at_expiry:
  "resetCode ex_user = ex_body ''123456'' ''new'' ''code'' \<and> resetCodeExpires ex_user = Some 1000
   \<and> verify_reset ex_env 1000 1000 (ex_body ''123456'' ''new'') [ex_user]
       = (Response 200 (SuccessBody True ''Password reset successfully''),
          [ex_user\<lparr>password := Some ''#new'', resetCode := None, resetCodeExpires := None\<rparr>])"
  by (simp add: verify_reset_def findOne_def ex_body_def ex_user_def ex_env_def date_lt_def
      bcrypt_hash_def save_def validate_def validate_common_def truthy_def replace_doc_def)

theorem C2_code_accepted_at_expiry_witness:
  "fst (verify_reset ex_env 1000 1000 (ex_body ''123456'' ''new'') [ex_user])
     = Response 200 (SuccessBody True ''Password reset successfully'')"
  using C2_code_accepted_at_expiry by simp

text \<open>
  When the clock passes the expiry between the two tests, the second test answers with
  a body of its own.
\<close>

lemma verify_reset_second_reading:
  "verify_reset ex_env 1000 1001 (ex_body ''123456'' ''new'') [ex_user]
       = (Response 400 (MessageBody ''Code expired''), [ex_user])"
  by (simp add: verify_reset_def findOne_def ex_body_def ex_user_def ex_env_def date_lt_def)

text \<open>
  Where the expiry lies strictly in the past, the code scheme answers as it does for a
  wrong code. The token scheme asks for an expiry strictly greater than the clock, and
  answers a token at or past its expiry as it does an unknown token.
\<close>

lemma verify_reset_expired:
  "findOne (\<lambda>u. email u = b ''email'') db = Some u \<Longrightarrow> resetCodeExpires u = Some t \<Longrightarrow> t < now1 \<Longrightarrow>
   verify_reset e now1 now2 b db = (Response 400 (SuccessBody False ''Invalid or expired code''), db)"
  by (simp add: verify_reset_def date_lt_def)

lemma reset_password_expired:
  assumes "\<forall>u\<in>set tdb. resetPasswordToken u = Some token \<longrightarrow> \<not> date_gt (resetPasswordExpires u) now"
  shows "reset_password e now token b tdb = (Response 400 (MessageBody ''Invalid or expired token''), tdb)"
proof -
  from assms have "findOne (token_filter token now) tdb = None"
    by (auto simp: findOne_None_iff token_filter_def)
  then show ?thesis by (simp add: reset_password_def)
qed

text \<open>
  Claim C4. When completing a reset answers 200, the collection that results is the
  old one with the matched user's document replaced, in the one \<^verbatim>\<open>save\<close>, by the
  document whose credential is the hash of the new password and whose secret and expiry
  are cleared; that document is then the one stored for the user; and the body of the
  answer is the success message.
\<close>

theorem C4_success_overwrites_and_clears:
  "(verify_reset e now1 now2 b db = (Response 200 m, db')
     \<longrightarrow> (\<exists>u pw. findOne (\<lambda>u. email u = b ''email'') db = Some u \<and> b ''password'' = Some pw
            \<and> db' = replace_doc (u\<lparr>password := Some (bhash e pw), resetCode := None,
                                     resetCodeExpires := None\<rparr>) db
            \<and> findOne (\<lambda>u. email u = b ''email'') db'
                = Some (u\<lparr>password := Some (bhash e pw), resetCode := None, resetCodeExpires := None\<rparr>)
            \<and> m = SuccessBody True ''Password reset successfully''))
   \<and> (reset_password e now token tb tdb = (Response 200 tm, tdb')
     \<longrightarrow> (\<exists>u pw. findOne (token_filter token now) tdb = Some u \<and> tb ''password'' = Some pw
            \<and> tdb' = replace_doc (u\<lparr>password := Some (bhash e pw), resetPasswordToken := None,
                                      resetPasswordExpires := None\<rparr>) tdb
            \<and> findOne (\<lambda>v. uid v = uid u) tdb'
                = Some (u\<lparr>password := Some (bhash e pw), resetPasswordToken := None,
                          resetPasswordExpires := None\<rparr>)
            \<and> tm = MessageBody ''Password has been reset successfully''))"
proof (intro conjI impI)
  assume a: "verify_reset e now1 now2 b db = (Response 200 m, db')"
  from verify_reset_success [OF a] verify_reset_stored [OF a]
  show "\<exists>u pw. findOne (\<lambda>u. email u = b ''email'') db = Some u \<and> b ''password'' = Some pw
            \<and> db' = replace_doc (u\<lparr>password := Some (bhash e pw), resetCode := None,
                                     resetCodeExpires := None\<rparr>) db
            \<and> findOne (\<lambda>u. email u = b ''email'') db'
                = Some (u\<lparr>password := Some (bhash e pw), resetCode := None, resetCodeExpires := None\<rparr>)
            \<and> m = SuccessBody True ''Password reset successfully''"
    by force
next
  assume a: "reset_password e now token tb tdb = (Response 200 tm, tdb')"
  from reset_password_success [OF a] reset_password_stored [OF a]
  show "\<exists>u pw. findOne (token_filter token now) tdb = Some u \<and> tb ''password'' = Some pw
            \<and> tdb' = replace_doc (u\<lparr>password := Some (bhash e pw), resetPasswordToken := None,
                                      resetPasswordExpires := None\<rparr>) tdb
            \<and> findOne (\<lambda>v. uid v = uid u) tdb'
                = Some (u\<lparr>password := Some (bhash e pw), resetPasswordToken := None,
                          resetPasswordExpires := None\<rparr>)
            \<and> tm = MessageBody ''Password has been reset successfully''"
    by force
qed

theorem C4_success_overwrites_and_clears_witness:
  "verify_reset ex_env 500 501 (ex_body ''123456'' ''new'') [ex_user]
     = (Response 200 (SuccessBody True ''Password reset successfully''),
        [ex_user\<lparr>password := Some ''#new'', resetCode := None, resetCodeExpires := None\<rparr>])
   \<and> (\<exists>u pw. findOne (\<lambda>u. email u = ex_body ''123456'' ''new'' ''email'') [ex_user] = Some u
         \<and> ex_body ''123456'' ''new'' ''password'' = Some pw
         \<and> findOne (\<lambda>u. email u = ex_body ''123456'' ''new'' ''email'')
              [ex_user\<lparr>password := Some ''#new'', resetCode := None, resetCodeExpires := None\<rparr>]
            = Some (u\<lparr>password := Some (bhash ex_env pw), resetCode := None, resetCodeExpires := None\<rparr>))
   \<and> reset_password ex_env 500 ''ab'' (ex_body ''x'' ''new'') [ex_token_user]
     = (Response 200 (MessageBody ''Password has been reset successfully''),
        [ex_token_user\<lparr>password := Some ''#new'', resetPasswordToken := None, resetPasswordExpires := None\<rparr>])
   \<and> (\<exists>u pw. findOne (token_filter ''ab'' 500) [ex_token_user] = Some u
         \<and> ex_body ''x'' ''new'' ''password'' = Some pw
         \<and> findOne (\<lambda>v. uid v = uid u)
              [ex_token_user\<lparr>password := Some ''#new'', resetPasswordToken := None, resetPasswordExpires := None\<rparr>]
            = Some (u\<lparr>password := Some (bhash ex_env pw), resetPasswordToken := None,
                      resetPasswordExpires := None\<rparr>))"
  using C4_success_overwrites_and_clears [where e = ex_env and ?now1.0 = 500 and ?now2.0 = 501
      and b = "ex_body ''123456'' ''new''" and db = "[ex_user]"
      and m = "SuccessBody True ''Password reset successfully''"
      and db' = "[ex_user\<lparr>password := Some ''#new'', resetCode := None, resetCodeExpires := None\<rparr>]"
      and now = 500 and token = "''ab''" and tb = "ex_body ''x'' ''new''" and tdb = "[ex_token_user]"
      and tm = "MessageBody ''Password has been reset successfully''"
      and tdb' = "[ex_token_user\<lparr>password := Some ''#new'', resetPasswordToken := None, resetPasswordExpires := None\<rparr>]"]
    ex_verify_reset_ok ex_reset_password_ok
  by blast

text \<open>
  Claim C5. A secret is used at most once. Code scheme: after a reset with the code
  \<open>s\<close> has succeeded, every later request for the same email with the code \<open>s\<close>, at
  any time and under any environment, is answered invalid-or-expired and changes
  nothing. Token scheme, where the token alone selects the user: after a reset with
  the token has succeeded for the user \<open>tu\<close>, no document of that user matches the
  token at any later time, a later request with the token leaves the documents of that
  user as they are, and it is answered invalid-or-expired, changing nothing, unless
  another user holds the very same token. A request of the code scheme that carries
  no code supplies no secret and is not covered here; \<open>verify_reset_without_code\<close>
  shows what the handler does with it.
\<close>

theorem C5_secret_used_once:
  "(verify_reset e now1 now2 b db = (Response 200 m, db') \<and> b ''code'' = Some s
      \<and> b2 ''email'' = b ''email'' \<and> b2 ''code'' = Some s
     \<longrightarrow> verify_reset e2 now3 now4 b2 db' = (Response 400 (SuccessBody False ''Invalid or expired code''), db'))
   \<and> (reset_password e now token tb tdb = (Response 200 tm, tdb')
        \<and> findOne (token_filter token now) tdb = Some tu
     \<longrightarrow> (\<forall>v\<in>set tdb'. uid v = uid tu \<longrightarrow> \<not> token_filter token tnow2 v)
         \<and> filter (\<lambda>v. uid v = uid tu) (snd (reset_password e2 tnow2 token tb2 tdb'))
             = filter (\<lambda>v. uid v = uid tu) tdb'
         \<and> ((\<forall>v\<in>set tdb. uid v \<noteq> uid tu \<longrightarrow> resetPasswordToken v \<noteq> Some token)
             \<longrightarrow> reset_password e2 tnow2 token tb2 tdb'
                   = (Response 400 (MessageBody ''Invalid or expired token''), tdb')))"
proof (intro conjI impI)
  assume "verify_reset e now1 now2 b db = (Response 200 m, db') \<and> b ''code'' = Some s
      \<and> b2 ''email'' = b ''email'' \<and> b2 ''code'' = Some s"
  then show "verify_reset e2 now3 now4 b2 db' = (Response 400 (SuccessBody False ''Invalid or expired code''), db')"
    using verify_reset_again by blast
next
  assume a: "reset_password e now token tb tdb = (Response 200 tm, tdb')
        \<and> findOne (token_filter token now) tdb = Some tu"
  then have cleared: "\<forall>v\<in>set tdb'. uid v = uid tu \<longrightarrow> resetPasswordToken v = None"
    using reset_password_clears_user by blast
  then show "\<forall>v\<in>set tdb'. uid v = uid tu \<longrightarrow> \<not> token_filter token tnow2 v"
    by (simp add: token_filter_def)
  from cleared have "\<forall>v\<in>set tdb'. uid v = uid tu \<longrightarrow> resetPasswordToken v \<noteq> Some token"
    by simp
  then show "filter (\<lambda>v. uid v = uid tu) (snd (reset_password e2 tnow2 token tb2 tdb'))
             = filter (\<lambda>v. uid v = uid tu) tdb'"
    by (rule reset_password_frame)
  assume others: "\<forall>v\<in>set tdb. uid v \<noteq> uid tu \<longrightarrow> resetPasswordToken v \<noteq> Some token"
  have "\<forall>v\<in>set tdb'. resetPasswordToken v \<noteq> Some token"
  proof
    fix v assume v: "v \<in> set tdb'"
    show "resetPasswordToken v \<noteq> Some token"
    proof (cases "uid v = uid tu")
      case True
      with cleared v show ?thesis by simp
    next
      case False
      with a v have "v \<in> set tdb" using reset_password_others_kept by blast
      with others False show ?thesis by blast
    qed
  qed
  then show "reset_password e2 tnow2 token tb2 tdb'
                   = (Response 400 (MessageBody ''Invalid or expired token''), tdb')"
    by (rule reset_password_no_match)
qed

theorem C5_secret_used_once_witness:
  "verify_reset ex_env 500 501 (ex_body ''123456'' ''new'') [ex_user]
     = (Response 200 (SuccessBody True ''Password reset successfully''),
        [ex_user\<lparr>password := Some ''#new'', resetCode := None, resetCodeExpires := None\<rparr>])
   \<and> ex_body ''123456'' ''new'' ''code'' = Some ''123456''
   \<and> ex_body ''123456'' ''again'' ''email'' = ex_body ''123456'' ''new'' ''email''
   \<and> ex_body ''123456'' ''again'' ''code'' = Some ''123456''
   \<and> verify_reset ex_env 502 503 (ex_body ''123456'' ''again'')
        [ex_user\<lparr>password := Some ''#new'', resetCode := None, resetCodeExpires := None\<rparr>]
     = (Response 400 (SuccessBody False ''Invalid or expired code''),
        [ex_user\<lparr>password := Some ''#new'', resetCode := None, resetCodeExpires := None\<rparr>])
   \<and> reset_password ex_env 500 ''ab'' (ex_body ''x'' ''new'') [ex_token_user]
     = (Response 200 (MessageBody ''Password has been reset successfully''),
        [ex_token_user\<lparr>password := Some ''#new'', resetPasswordToken := None, resetPasswordExpires := None\<rparr>])
   \<and> findOne (token_filter ''ab'' 500) [ex_token_user] = Some ex_token_user
   \<and> reset_password ex_env 502 ''ab'' (ex_body ''x'' ''again'')
        [ex_token_user\<lparr>password := Some ''#new'', resetPasswordToken := None, resetPasswordExpires := None\<rparr>]
     = (Response 400 (MessageBody ''Invalid or expired token''),
        [ex_token_user\<lparr>password := Some ''#new'', resetPasswordToken := None, resetPasswordExpires := None\<rparr>])"
proof -
  have h1: "ex_body ''123456'' ''new'' ''code'' = Some ''123456''"
    and h2: "ex_body ''123456'' ''again'' ''email'' = ex_body ''123456'' ''new'' ''email''"
    and h3: "ex_body ''123456'' ''again'' ''code'' = Some ''123456''"
    by (simp_all add: ex_body_def)
  have h4: "findOne (token_filter ''ab'' 500) [ex_token_user] = Some ex_token_user"
    by (simp add: findOne_def token_filter_def ex_token_user_def date_gt_def)
  have h5: "\<forall>v\<in>set [ex_token_user]. uid v \<noteq> uid ex_token_user \<longrightarrow> resetPasswordToken v \<noteq> Some ''ab''"
    by simp
  from C5_secret_used_once [where e = ex_env and ?now1.0 = 500 and ?now2.0 = 501
      and b = "ex_body ''123456'' ''new''" and db = "[ex_user]" and s = "''123456''"
      and m = "SuccessBody True ''Password reset successfully''"
      and db' = "[ex_user\<lparr>password := Some ''#new'', resetCode := None, resetCodeExpires := None\<rparr>]"
      and ?b2.0 = "ex_body ''123456'' ''again''" and ?e2.0 = ex_env and ?now3.0 = 502 and ?now4.0 = 503
      and now = 500 and token = "''ab''" and tb = "ex_body ''x'' ''new''" and tdb = "[ex_token_user]"
      and tm = "MessageBody ''Password has been reset successfully''" and tu = ex_token_user
      and tdb' = "[ex_token_user\<lparr>password := Some ''#new'', resetPasswordToken := None, resetPasswordExpires := None\<rparr>]"
      and ?tnow2.0 = 502 and ?tb2.0 = "ex_body ''x'' ''again''"]
    ex_verify_reset_ok ex_reset_password_ok h1 h2 h3 h4 h5
  show ?thesis by blast
qed

section \<open>Requesting a reset\<close>






section \<open>Account lifecycle\<close>




text \<open>
  An approved user with the right password does get the session token and the chat
  credential, so the gate above is the status and nothing else.
\<close>

lemma login_approved:
  "login ex_env (ex_body ''x'' ''old'') [ex_user\<lparr>status := Approved\<rparr>]
     = Response 200 (LoginBody \<lparr>li_token = ''jwt:id01'', li_userId = ''id01'', li_name = Some ''Ana'',
         li_email = Some ''a@x.com'', li_phone = Some ''555'', li_chatToken = ''chat:id01''\<rparr>)"
  by (simp add: login_def findOne_def ex_body_def ex_user_def ex_env_def bcrypt_compare_def)

text \<open>
  Registration. The schema of \<^verbatim>\<open>server.js\<close> requires the paths \<^verbatim>\<open>age\<close> and
  \<^verbatim>\<open>gender\<close>, and the signup handler builds the new document without them: the
  document never passes validation, \<^verbatim>\<open>save\<close> throws, and the handler's \<^verbatim>\<open>catch\<close>
  answers 500. The two conflict checks, which come before, answer as claim C7 says.
\<close>

lemma new_user_invalid: "\<not> validate (new_user newId b h)"
  by (simp add: validate_def new_user_def truthy_def)

lemma signup_never_stores:
  "snd (signup e newId b db) = db \<and> (\<forall>m. fst (signup e newId b db) \<noteq> Response 201 m)"
  by (simp add: signup_def insert_doc_def new_user_invalid split: option.splits sum.splits)

lemma signup_conflict_email:
  assumes "truthy (b ''name'')" "truthy (b ''email'')" "truthy (b ''password'')"
    "truthy (b ''phone'')" "truthy (b ''validId'')" "truthy (b ''selfie'')"
    and "u \<in> set db" "email u = b ''email''"
  shows "signup e newId b db = (Response 400 (ErrorBody ''User already exists''), db)"
proof -
  from assms(7,8) have "findOne (\<lambda>u. email u = b ''email'') db \<noteq> None"
    by (auto simp: findOne_None_iff)
  with assms(1-6) show ?thesis
    by (auto simp: signup_def)
qed

lemma signup_conflict_phone:
  assumes "truthy (b ''name'')" "truthy (b ''email'')" "truthy (b ''password'')"
    "truthy (b ''phone'')" "truthy (b ''validId'')" "truthy (b ''selfie'')"
    and "u \<in> set db" "phone u = b ''phone''"
  shows "signup e newId b db = (Response 400 (ErrorBody ''User already exists''), db)"
proof -
  from assms(7,8) have "findOne (\<lambda>u. phone u = b ''phone'') db \<noteq> None"
    by (auto simp: findOne_None_iff)
  with assms(1-6) show ?thesis
    by (auto simp: signup_def split: option.splits)
qed

text \<open>
  Claim C7, the case without conflict. A request with every field present, on an
  empty collection, is answered 500 and stores no user.
\<close>

theorem C7_signup_stores_nothing:
  "signup ex_env ''id02'' ex_signup_body []
     = (Response 500 (ErrorDetails ''Internal server error'' ValidationError), [])"
  by (simp add: signup_def ex_signup_body_def truthy_def findOne_def bcrypt_hash_def
      insert_doc_def new_user_invalid)

theorem C7_signup_stores_nothing_witness:
  "snd (signup ex_env ''id02'' ex_signup_body []) = []
   \<and> fst (signup ex_env ''id02'' ex_signup_body []) \<noteq> Response 201 (MessageBody ''Signup successful'')"
  using C7_signup_stores_nothing by simp

text \<open>The avatar.\<close>

lemma replace_doc_idem: "replace_doc u (replace_doc u db) = replace_doc u db"
  unfolding replace_doc_def by (induction db) auto

lemma update_avatar_absent:
  "findOne (\<lambda>u. uid u = i) db = None \<Longrightarrow>
   update_avatar e i b db
     = (if validObjectId e i then (Response 200 (MessageBody ''Avatar updated''), db)
        else (Response 500 (ErrorBody ''Failed to update avatar''), db))"
  by (simp add: update_avatar_def findByIdAndUpdate_avatar_def)

lemma update_avatar_no_field:
  "b ''avatar'' = None \<Longrightarrow>
   update_avatar e i b db
     = (if validObjectId e i then (Response 200 (MessageBody ''Avatar updated''), db)
        else (Response 500 (ErrorBody ''Failed to update avatar''), db))"
  by (simp add: update_avatar_def findByIdAndUpdate_avatar_def split: option.splits)

lemma update_avatar_present:
  assumes "findOne (\<lambda>u. uid u = i) db = Some u" "validObjectId e i" "b ''avatar'' = Some a"
  shows "update_avatar e i b db
      = (Response 200 (MessageBody ''Avatar updated''), replace_doc (u\<lparr>avatar := Some a\<rparr>) db)"
    and "findOne (\<lambda>u. uid u = i) (replace_doc (u\<lparr>avatar := Some a\<rparr>) db)
      = Some (u\<lparr>avatar := Some a\<rparr>)"
proof -
  show "update_avatar e i b db
      = (Response 200 (MessageBody ''Avatar updated''), replace_doc (u\<lparr>avatar := Some a\<rparr>) db)"
    using assms by (simp add: update_avatar_def findByIdAndUpdate_avatar_def)
  from findOne_SomeD [OF assms(1)] have "uid u = i" by simp
  then show "findOne (\<lambda>u. uid u = i) (replace_doc (u\<lparr>avatar := Some a\<rparr>) db)
      = Some (u\<lparr>avatar := Some a\<rparr>)"
    by (intro findOne_replace_doc [OF assms(1)]) simp_all
qed

text \<open>
  For an existing user and a request that carries an avatar, the stored document is the
  old one with the avatar overwritten, and a second application of the same request
  gives the same answer and the same collection as the first.
\<close>

lemma update_avatar_idem:
  "update_avatar e i b (snd (update_avatar e i b db)) = update_avatar e i b db"
proof (cases "validObjectId e i")
  case False
  then show ?thesis by (simp add: update_avatar_def findByIdAndUpdate_avatar_def)
next
  case True
  show ?thesis
  proof (cases "findOne (\<lambda>u. uid u = i) db")
    case None
    with True show ?thesis by (simp add: update_avatar_absent)
  next
    case (Some u)
    show ?thesis
    proof (cases "b ''avatar''")
      case None
      with True show ?thesis by (simp add: update_avatar_no_field)
    next
      case (Some a)
      note p = update_avatar_present [where b = b, OF \<open>findOne (\<lambda>u. uid u = i) db = Some u\<close> True Some]
      have "update_avatar e i b (replace_doc (u\<lparr>avatar := Some a\<rparr>) db)
          = (Response 200 (MessageBody ''Avatar updated''),
             replace_doc (u\<lparr>avatar := Some a\<rparr>) (replace_doc (u\<lparr>avatar := Some a\<rparr>) db))"
        using update_avatar_present(1) [where b = b, OF p(2) True Some] by simp
      with p(1) show ?thesis by (simp add: replace_doc_idem)
    qed
  qed
qed

lemma update_avatar_overwrites:
  assumes "findOne (\<lambda>u. uid u = i) db = Some u" "validObjectId e i" "b ''avatar'' = Some a"
  shows "fst (update_avatar e i b db) = Response 200 (MessageBody ''Avatar updated'')"
    and "findOne (\<lambda>u. uid u = i) (snd (update_avatar e i b db)) = Some (u\<lparr>avatar := Some a\<rparr>)"
  using update_avatar_present [where b = b, OF assms] by simp_all

lemma update_avatar_example:
  "findOne (\<lambda>u. uid u = ''id01'') (snd (update_avatar ex_env ''id01'' [''avatar'' \<mapsto> ''pic''] [ex_user]))
     = Some (ex_user\<lparr>avatar := Some ''pic''\<rparr>)"
proof -
  have "findOne (\<lambda>u. uid u = ''id01'') [ex_user] = Some ex_user"
    by (simp add: findOne_def ex_user_def)
  moreover have "validObjectId ex_env ''id01''" by (simp add: ex_env_def)
  moreover have "[''avatar'' \<mapsto> ''pic''] ''avatar'' = Some ''pic''" by simp
  ultimately show ?thesis by (rule update_avatar_overwrites(2) [where b = "[''avatar'' \<mapsto> ''pic'']"])
qed

text \<open>
  The handler never answers not-found: whatever the id, the body and the collection,
  its answer is 200 or 500.
\<close>

lemma update_avatar_never_not_found:
  "fst (update_avatar e i b db) = Response 200 (MessageBody ''Avatar updated'')
   \<or> fst (update_avatar e i b db) = Response 500 (ErrorBody ''Failed to update avatar'')"
  by (simp add: update_avatar_def split: sum.splits)

text \<open>
  Claim C8, for a user that does not exist. No document has the id \<open>id09\<close>, which is a
  well-formed id. The claim asks for the not-found answer, which the handler that
  deletes a user gives for such an id; the avatar handler does not look at what the
  update found, answers 200 with the message that the avatar was updated, and has
  updated nothing.
\<close>

theorem C8_absent_user_answered_200:
  "findOne (\<lambda>u. uid u = ''id09'') [ex_user] = None
   \<and> update_avatar ex_env ''id09'' [''avatar'' \<mapsto> ''pic''] [ex_user]
       = (Response 200 (MessageBody ''Avatar updated''), [ex_user])"
  by (simp add: update_avatar_def findByIdAndUpdate_avatar_def findOne_def ex_user_def ex_env_def)

theorem C8_absent_user_answered_200_witness:
  "fst (update_avatar ex_env ''id09'' [''avatar'' \<mapsto> ''pic''] [ex_user])
     = Response 200 (MessageBody ''Avatar updated'')
   \<and> snd (update_avatar ex_env ''id09'' [''avatar'' \<mapsto> ''pic''] [ex_user]) = [ex_user]"
  using C8_absent_user_answered_200 by simp

text \<open>
  Claim C10. When the lookup by id finds no user, reading the profile answers 200 with
  the body \<^verbatim>\<open>null\<close>; the handler answers 500 exactly when the lookup throws; and it
  never answers 404.
\<close>

theorem C10_absent_user_is_null:
  "(findById e db i = Inr None \<longrightarrow> get_user e i db = Response 200 (UserBody None))
   \<and> ((\<exists>bd. get_user e i db = Response 500 bd) \<longleftrightarrow> (\<exists>err. findById e db i = Inl err))
   \<and> (\<forall>bd. get_user e i db \<noteq> Response 404 bd)"
  by (auto simp: get_user_def split: sum.splits)

theorem C10_absent_user_is_null_witness:
  "findById ex_env [ex_user] ''id09'' = Inr None
   \<and> get_user ex_env ''id09'' [ex_user] = Response 200 (UserBody None)
   \<and> findById ex_env [ex_user] ''too long'' = Inl CastError
   \<and> get_user ex_env ''too long'' [ex_user] = Response 500 (ErrorBody ''Error fetching user data'')"
proof -
  have h1: "findById ex_env [ex_user] ''id09'' = Inr None"
    by (simp add: findById_def findOne_def ex_env_def ex_user_def)
  have h2: "findById ex_env [ex_user] ''too long'' = Inl CastError"
    by (simp add: findById_def ex_env_def)
  from C10_absent_user_is_null [of ex_env "[ex_user]" "''id09''"] h1
  have a: "get_user ex_env ''id09'' [ex_user] = Response 200 (UserBody None)" by blast
  from C10_absent_user_is_null [of ex_env "[ex_user]" "''too long''"] h2
  have "\<exists>bd. get_user ex_env ''too long'' [ex_user] = Response 500 bd" by blast
  then have b: "get_user ex_env ''too long'' [ex_user] = Response 500 (ErrorBody ''Error fetching user data'')"
    by (auto simp: get_user_def split: sum.splits)
  from h1 h2 a b show ?thesis by simp
qed

section \<open>Rounding to a double\<close>

lemma binade_from_bounds:
  "x < 2 powi (int n - 1021) \<Longrightarrow>
   - 1022 \<le> binade_from n x \<and> x < 2 powi (binade_from n x + 1)
   \<and> (binade_from n x = - 1022 \<or> 2 powi (binade_from n x) \<le> x)"
proof (induction n)
  case 0
  then show ?case by simp
next
  case (Suc n)
  show ?case
  proof (cases "2 powi (int n - 1021) \<le> x")
    case True
    have "int (Suc n) - 1021 = int n - 1021 + 1" by simp
    with Suc.prems True show ?thesis by simp
  next
    case False
    then have "x < 2 powi (int n - 1021)" by simp
    from Suc.IH [OF this] False show ?thesis by simp
  qed
qed

lemma binade_bounds:
  assumes "x < 2 powi 1024"
  shows "- 1022 \<le> binade x" and "x < 2 powi (binade x + 1)"
    and "binade x = - 1022 \<or> 2 powi (binade x) \<le> x"
proof -
  have "int 2045 - 1021 = 1024" by simp
  with assms have "x < 2 powi (int 2045 - 1021)" by (simp only:)
  from binade_from_bounds [OF this]
  show "- 1022 \<le> binade x" and "x < 2 powi (binade x + 1)"
    and "binade x = - 1022 \<or> 2 powi (binade x) \<le> x"
    by (simp_all only: binade_def)
qed

lemma binade_eqI:
  assumes "2 powi e \<le> x" "x < 2 powi (e + 1)" "- 1022 \<le> e" "e \<le> 1023"
  shows "binade x = e"
proof -
  have "(2::real) powi (e + 1) \<le> 2 powi 1024"
    using assms(4) by (intro power_int_increasing) auto
  with assms(2) have big: "x < 2 powi 1024" by (rule less_le_trans)
  note b = binade_bounds [OF big]
  show ?thesis
  proof (rule ccontr)
    assume "binade x \<noteq> e"
    then consider "binade x < e" | "e < binade x" by linarith
    then show False
    proof cases
      case 1
      then have "(2::real) powi (binade x + 1) \<le> 2 powi e"
        by (intro power_int_increasing) auto
      with b(2) assms(1) show False by linarith
    next
      case 2
      with assms(3) b(3) have "2 powi binade x \<le> x" by auto
      moreover from 2 have "(2::real) powi (e + 1) \<le> 2 powi binade x"
        by (intro power_int_increasing) auto
      ultimately show False using assms(2) by linarith
    qed
  qed
qed

lemma round_half_even_le: "y \<le> of_int N \<Longrightarrow> round_half_even y \<le> N"
proof -
  assume a: "y \<le> of_int N"
  then have f: "\<lfloor>y\<rfloor> \<le> N" by (simp add: floor_le_iff)
  show ?thesis
  proof (cases "\<lfloor>y\<rfloor> = N")
    case True
    then have "of_int N \<le> y" using of_int_floor_le [of y] by simp
    with a True have "y - of_int \<lfloor>y\<rfloor> = 0" by simp
    then show ?thesis using True by (simp add: round_half_even_def Let_def)
  next
    case False
    with f have "\<lfloor>y\<rfloor> + 1 \<le> N" by simp
    then show ?thesis by (simp add: round_half_even_def Let_def)
  qed
qed

lemma round_half_even_ge: "of_int N \<le> y \<Longrightarrow> N \<le> round_half_even y"
proof -
  assume "of_int N \<le> y"
  then have "N \<le> \<lfloor>y\<rfloor>" by (simp add: le_floor_iff)
  then show ?thesis by (simp add: round_half_even_def Let_def)
qed

lemma round_half_even_below_half: "y < of_int N - 1 / 2 \<Longrightarrow> round_half_even y \<le> N - 1"
proof -
  assume a: "y < of_int N - 1 / 2"
  then have "y < of_int (N - 1) + 1" by simp
  then have f: "\<lfloor>y\<rfloor> \<le> N - 1" by (simp only: floor_le_iff)
  show ?thesis
  proof (cases "\<lfloor>y\<rfloor> = N - 1")
    case True
    with a have "y - of_int \<lfloor>y\<rfloor> < 1 / 2" by simp
    then show ?thesis using True by (simp add: round_half_even_def Let_def)
  next
    case False
    with f have "\<lfloor>y\<rfloor> + 1 \<le> N - 1" by simp
    then show ?thesis by (simp add: round_half_even_def Let_def)
  qed
qed

lemma fl_le_multiple:
  assumes "x \<le> of_int N * 2 powi (binade x - 52)"
  shows "fl x \<le> of_int N * 2 powi (binade x - 52)"
proof -
  let ?u = "(2::real) powi (binade x - 52)"
  have u: "0 < ?u" by simp
  from assms u have "x / ?u \<le> of_int N" by (simp add: pos_divide_le_eq)
  then have "round_half_even (x / ?u) \<le> N" by (rule round_half_even_le)
  then have "(of_int (round_half_even (x / ?u)) :: real) \<le> of_int N" by simp
  with u have "of_int (round_half_even (x / ?u)) * ?u \<le> of_int N * ?u"
    by (intro mult_right_mono) simp_all
  then show ?thesis by (simp add: fl_def Let_def)
qed

lemma fl_ge_multiple:
  assumes "of_int N * 2 powi (binade x - 52) \<le> x"
  shows "of_int N * 2 powi (binade x - 52) \<le> fl x"
proof -
  let ?u = "(2::real) powi (binade x - 52)"
  have u: "0 < ?u" by simp
  from assms u have "of_int N \<le> x / ?u" by (simp add: pos_le_divide_eq)
  then have "N \<le> round_half_even (x / ?u)" by (rule round_half_even_ge)
  then have "(of_int N :: real) \<le> of_int (round_half_even (x / ?u))" by simp
  with u have "of_int N * ?u \<le> of_int (round_half_even (x / ?u)) * ?u"
    by (intro mult_right_mono) simp_all
  then show ?thesis by (simp add: fl_def Let_def)
qed

lemma two_powi_split: "(2::real) powi (b + 1) = of_int (2 ^ 53) * 2 powi (b - 52)"
proof -
  have "b + 1 = 53 + (b - 52)" by simp
  then have "(2::real) powi (b + 1) = 2 powi (53 + (b - 52))" by (rule arg_cong)
  also have "\<dots> = 2 powi 53 * 2 powi (b - 52)" by (subst power_int_add) simp_all
  finally show ?thesis by simp
qed

lemma two_powi_split': "(2::real) powi b = of_int (2 ^ 52) * 2 powi (b - 52)"
proof -
  have "b = 52 + (b - 52)" by simp
  then have "(2::real) powi b = 2 powi (52 + (b - 52))" by (rule arg_cong)
  also have "\<dots> = 2 powi 52 * 2 powi (b - 52)" by (subst power_int_add) simp_all
  finally show ?thesis by simp
qed

lemma fl_le_binade_top:
  assumes "x < 2 powi 1024"
  shows "fl x \<le> 2 powi (binade x + 1)"
proof -
  from binade_bounds(2) [OF assms] have "x \<le> 2 powi (binade x + 1)" by simp
  then have "x \<le> of_int (2 ^ 53) * 2 powi (binade x - 52)" by (simp only: two_powi_split)
  then have "fl x \<le> of_int (2 ^ 53) * 2 powi (binade x - 52)" by (rule fl_le_multiple)
  then show ?thesis by (simp only: two_powi_split)
qed

lemma fl_ge_binade_bottom:
  assumes "2 powi binade x \<le> x"
  shows "2 powi binade x \<le> fl x"
proof -
  from assms have "of_int (2 ^ 52) * 2 powi (binade x - 52) \<le> x"
    by (simp only: two_powi_split' [symmetric])
  then have "of_int (2 ^ 52) * 2 powi (binade x - 52) \<le> fl x" by (rule fl_ge_multiple)
  then show ?thesis by (simp only: two_powi_split' [symmetric])
qed

lemma fl_nonneg: "0 \<le> x \<Longrightarrow> 0 \<le> fl x"
  using fl_ge_multiple [of 0 x] by simp


lemma binade_less:
  assumes "x < 2 powi e" "- 1022 < e" "e \<le> 1024"
  shows "binade x < e"
proof -
  have "(2::real) powi e \<le> 2 powi 1024"
    using assms(3) by (intro power_int_increasing) auto
  with assms(1) have big: "x < 2 powi 1024" by (rule less_le_trans)
  note b = binade_bounds [OF big]
  show ?thesis
  proof (rule ccontr)
    assume "\<not> binade x < e"
    then have le: "e \<le> binade x" by simp
    with assms(2) b(3) have "2 powi binade x \<le> x" by auto
    moreover from le have "(2::real) powi e \<le> 2 powi binade x"
      by (intro power_int_increasing) auto
    ultimately show False using assms(1) by linarith
  qed
qed

text \<open>The largest double below 1.\<close>

lemma double_below_one:
  assumes d: "is_double r" and r: "r < 1"
  shows "r \<le> 1 - 1 / 2 ^ 53"
proof (cases "1 / 2 \<le> r")
  case False
  have "(1::real) / 2 \<le> 1 - 1 / 2 ^ 53" by simp
  with False show ?thesis by linarith
next
  case True
  have bin: "binade r = - 1"
    using True r by (intro binade_eqI) (simp_all add: power_int_minus_divide)
  have u: "(2::real) powi (binade r - 52) = 1 / 2 ^ 53"
    by (simp add: bin power_int_minus_divide)
  define k where "k = round_half_even (r / (1 / 2 ^ 53))"
  from d have rk: "r = of_int k / 2 ^ 53"
    by (simp add: is_double_def fl_def Let_def u k_def)
  with r have "real_of_int k < 2 ^ 53" by (simp add: field_simps)
  then have "real_of_int k < real_of_int (2 ^ 53)" by simp
  then have "k < 2 ^ 53" by (simp only: of_int_less_iff)
  then have "k \<le> 2 ^ 53 - 1" by simp
  then have "real_of_int k \<le> real_of_int (2 ^ 53 - 1)" by (simp only: of_int_le_iff)
  then have "real_of_int k / 2 ^ 53 \<le> real_of_int (2 ^ 53 - 1) / 2 ^ 53"
    by (intro divide_right_mono) simp_all
  with rk show ?thesis by (simp add: field_simps)
qed

lemma product_rounds_below:
  assumes r0: "0 \<le> r" and r1: "r \<le> 1 - 1 / 2 ^ 53"
  shows "0 \<le> fl (r * 900000)" and "fl (r * 900000) \<le> 900000 - 1 / 2 ^ 33"
proof -
  let ?x = "r * 900000"
  from r0 have x0: "0 \<le> ?x" by simp
  then show "0 \<le> fl ?x" by (rule fl_nonneg)
  from r1 have x1: "?x \<le> 900000 - 900000 / 2 ^ 53" by simp
  show "fl ?x \<le> 900000 - 1 / 2 ^ 33"
  proof (cases "2 powi 19 \<le> ?x")
    case True
    have bin: "binade ?x = 19"
      using True x1 by (intro binade_eqI) simp_all
    have u: "(2::real) powi (binade ?x - 52) = 1 / 2 ^ 33"
      by (simp add: bin power_int_minus_divide)
    from x1 have "?x * 2 ^ 33 \<le> (900000 - 900000 / 2 ^ 53) * 2 ^ 33"
      by (intro mult_right_mono) simp_all
    also have "\<dots> < real_of_int (900000 * 2 ^ 33) - 1 / 2" by simp
    finally have "?x / (1 / 2 ^ 33) < real_of_int (900000 * 2 ^ 33) - 1 / 2" by simp
    then have "round_half_even (?x / (1 / 2 ^ 33)) \<le> 900000 * 2 ^ 33 - 1"
      by (rule round_half_even_below_half)
    then have "real_of_int (round_half_even (?x / (1 / 2 ^ 33))) \<le> real_of_int (900000 * 2 ^ 33 - 1)"
      by (simp only: of_int_le_iff)
    then have "real_of_int (round_half_even (?x / (1 / 2 ^ 33))) * (1 / 2 ^ 33)
        \<le> real_of_int (900000 * 2 ^ 33 - 1) * (1 / 2 ^ 33)"
      by (intro mult_right_mono) simp_all
    also have "\<dots> = 900000 - 1 / 2 ^ 33" by simp
    finally show ?thesis by (simp add: fl_def Let_def u del: times_divide_eq_right)
  next
    case False
    then have lt: "?x < 2 powi 19" by simp
    have "?x < 2 powi 1024"
      using lt by (rule less_le_trans) simp
    then have "fl ?x \<le> 2 powi (binade ?x + 1)" by (rule fl_le_binade_top)
    also have "binade ?x < 19" using lt by (intro binade_less) simp_all
    then have "(2::real) powi (binade ?x + 1) \<le> 2 powi 19"
      by (intro power_int_increasing) simp_all
    also have "(2::real) powi 19 \<le> 900000 - 1 / 2 ^ 33" by simp
    finally show ?thesis .
  qed
qed

lemma sum_rounds_within:
  assumes p0: "0 \<le> p" and p1: "p \<le> 900000 - 1 / 2 ^ 33"
  shows "100000 \<le> fl (100000 + p)" and "fl (100000 + p) \<le> 1000000 - 1 / 2 ^ 33"
proof -
  let ?s = "100000 + p"
  from p0 p1 have s: "100000 \<le> ?s" "?s \<le> 1000000 - 1 / 2 ^ 33" by simp_all
  have big: "?s < 2 powi 1024"
  proof -
    have "?s < 2 powi 20" using s(2) by simp
    also have "(2::real) powi 20 \<le> 2 powi 1024" by (intro power_int_increasing) simp_all
    finally show ?thesis .
  qed
  note b = binade_bounds [OF big]
  have lt20: "binade ?s < 20" using s(2) by (intro binade_less) simp_all
  have ge16: "16 \<le> binade ?s"
  proof (rule ccontr)
    assume "\<not> 16 \<le> binade ?s"
    then have "binade ?s + 1 \<le> 16" by simp
    then have "(2::real) powi (binade ?s + 1) \<le> 2 powi 16"
      by (intro power_int_increasing) simp_all
    with b(2) s(1) show False by simp
  qed
  show "fl ?s \<le> 1000000 - 1 / 2 ^ 33"
  proof (cases "binade ?s = 19")
    case True
    have "?s \<le> real_of_int (1000000 * 2 ^ 33 - 1) * 2 powi (binade ?s - 52)"
      using s(2) by (simp add: True power_int_minus_divide)
    then have "fl ?s \<le> real_of_int (1000000 * 2 ^ 33 - 1) * 2 powi (binade ?s - 52)"
      by (rule fl_le_multiple)
    then show ?thesis by (simp add: True power_int_minus_divide)
  next
    case False
    with lt20 have "binade ?s + 1 \<le> 19" by simp
    then have "(2::real) powi (binade ?s + 1) \<le> 2 powi 19"
      by (intro power_int_increasing) simp_all
    with fl_le_binade_top [OF big] have "fl ?s \<le> 2 powi 19" by linarith
    then show ?thesis by simp
  qed
  show "100000 \<le> fl ?s"
  proof (cases "binade ?s = 16")
    case True
    have "real_of_int (100000 * 2 ^ 36) * 2 powi (binade ?s - 52) \<le> ?s"
      using s(1) by (simp add: True power_int_minus_divide)
    then have "real_of_int (100000 * 2 ^ 36) * 2 powi (binade ?s - 52) \<le> fl ?s"
      by (rule fl_ge_multiple)
    then show ?thesis by (simp add: True power_int_minus_divide)
  next
    case False
    with ge16 have g: "17 \<le> binade ?s" by simp
    then have "binade ?s \<noteq> - 1022" by simp
    with b(3) have "2 powi binade ?s \<le> ?s" by simp
    then have "2 powi binade ?s \<le> fl ?s" by (rule fl_ge_binade_bottom)
    moreover from g have "(2::real) powi 17 \<le> 2 powi binade ?s"
      by (intro power_int_increasing) simp_all
    ultimately have "2 powi 17 \<le> fl ?s" by linarith
    then show ?thesis by simp
  qed
qed

lemma code_number_range:
  assumes "is_double r" "0 \<le> r" "r < 1"
  shows "100000 \<le> code_number r" and "code_number r \<le> 999999"
proof -
  from double_below_one [OF assms(1,3)] have r1: "r \<le> 1 - 1 / 2 ^ 53" .
  note p = product_rounds_below [OF assms(2) r1]
  note s = sum_rounds_within [OF p]
  from s(1) show "100000 \<le> code_number r"
    by (simp add: code_number_def le_floor_iff)
  have "(1000000::real) - 1 / 2 ^ 33 < 1000000" by simp
  with s(2) have "fl (100000 + fl (r * 900000)) < 1000000" by linarith
  then have "\<lfloor>fl (100000 + fl (r * 900000))\<rfloor> < 1000000" by (simp add: floor_less_iff)
  then show "code_number r \<le> 999999" by (simp add: code_number_def)
qed

lemma round_half_even_near: "of_int M \<le> y \<Longrightarrow> y < of_int M + 1 / 2 \<Longrightarrow> round_half_even y = M"
proof -
  assume a: "of_int M \<le> y" "y < of_int M + 1 / 2"
  then have "\<lfloor>y\<rfloor> = M" by (intro floor_unique) simp_all
  with a show ?thesis by (simp add: round_half_even_def Let_def)
qed

lemma fl_near:
  assumes "binade x = e" and "of_int M \<le> x * 2 powi (52 - e)" and "x * 2 powi (52 - e) < of_int M + 1 / 2"
  shows "fl x = of_int M * 2 powi (e - 52)"
proof -
  have "x / 2 powi (e - 52) = x * 2 powi (52 - e)"
    by (simp add: power_int_diff field_simps)
  with assms(2,3) have "round_half_even (x / 2 powi (e - 52)) = M"
    by (intro round_half_even_near) simp_all
  then show ?thesis by (simp add: fl_def Let_def assms(1))
qed

lemma is_double_half: "is_double (1 / 2)"
proof -
  have b: "binade (1 / 2) = - 1"
    by (intro binade_eqI) (simp_all add: power_int_minus_divide)
  have "fl (1 / 2) = of_int (2 ^ 52) * 2 powi (- 1 - 52)"
    by (rule fl_near [OF b]) simp_all
  then show ?thesis by (simp add: is_double_def power_int_minus_divide)
qed

lemma is_double_top: "is_double (1 - 1 / 2 ^ 53)"
proof -
  have b: "binade (1 - 1 / 2 ^ 53) = - 1"
    by (intro binade_eqI) (simp_all add: power_int_minus_divide)
  have "fl (1 - 1 / 2 ^ 53) = of_int (2 ^ 53 - 1) * 2 powi (- 1 - 52)"
    by (rule fl_near [OF b]) simp_all
  then show ?thesis by (simp add: is_double_def power_int_minus_divide)
qed

section \<open>The six-digit code\<close>

lemma below_ten: "d < 10 \<Longrightarrow> d = 0 \<or> d = 1 \<or> d = 2 \<or> d = 3 \<or> d = 4 \<or> d = 5 \<or> d = 6 \<or> d = 7 \<or> d = 8 \<or> d = (9::nat)"
  by arith

lemma digit_char_is_digit: "d < 10 \<Longrightarrow> is_digit (digit_char d)"
  by (drule below_ten) (auto simp: is_digit_def digit_char_def)

lemma digit_value_digit_char: "d < 10 \<Longrightarrow> digit_value (digit_char d) = d"
  by (drule below_ten) (auto simp: digit_value_def digit_char_def)

lemma digits_are_digits: "c \<in> set (digits n) \<Longrightarrow> is_digit c"
proof (induction n rule: digits.induct)
  case (1 n)
  show ?case
  proof (cases "n < 10")
    case True
    with "1.prems" show ?thesis
      by (simp add: digits.simps [of n] digit_char_is_digit)
  next
    case False
    with "1.prems" "1.IH" show ?thesis
      by (auto simp: digits.simps [of n] digit_char_is_digit)
  qed
qed

lemma decimal_snoc: "decimal (xs @ [c]) = 10 * decimal xs + digit_value c"
  by (simp add: decimal_def)

lemma decimal_digits: "decimal (digits n) = n"
proof (induction n rule: digits.induct)
  case (1 n)
  show ?case
  proof (cases "n < 10")
    case True
    then show ?thesis
      by (simp add: digits.simps [of n] decimal_def digit_value_digit_char)
  next
    case False
    with "1.IH" show ?thesis
      by (simp add: digits.simps [of n] decimal_snoc digit_value_digit_char)
  qed
qed

lemma length_digits: "10 ^ k \<le> n \<Longrightarrow> n < 10 ^ Suc k \<Longrightarrow> length (digits n) = Suc k"
proof (induction k arbitrary: n)
  case 0
  then show ?case by (simp add: digits.simps [of n])
next
  case (Suc k)
  have "(10::nat) \<le> 10 ^ Suc k" by simp
  with Suc.prems(1) have big: "\<not> n < 10" by linarith
  from Suc.prems have "10 ^ k \<le> n div 10" "n div 10 < 10 ^ Suc k"
    by (simp_all add: less_mult_imp_div_less mult.commute)
  from Suc.IH [OF this] big show ?case
    by (simp add: digits.simps [of n])
qed

lemma digits_550000: "digits 550000 = ''550000''"
  by (simp add: digits.simps digit_char_def)

lemma digits_999999: "digits 999999 = ''999999''"
  by (simp add: digits.simps digit_char_def)

lemma gen_code_half: "gen_code (1 / 2) = ''550000''"
proof -
  have b1: "binade (1 / 2 * 900000) = 18"
    by (intro binade_eqI) simp_all
  have p: "fl (1 / 2 * 900000) = 450000"
    using fl_near [OF b1, of "450000 * 2 ^ 34"] by (simp add: power_int_minus_divide)
  have b2: "binade (100000 + 450000) = 19"
    by (intro binade_eqI) simp_all
  have s: "fl (100000 + 450000) = 550000"
    using fl_near [OF b2, of "550000 * 2 ^ 33"] by (simp add: power_int_minus_divide)
  have "code_number (1 / 2) = 550000"
    unfolding code_number_def p s by simp
  then show ?thesis by (simp add: gen_code_def toString_def digits_550000)
qed

lemma gen_code_top: "gen_code (1 - 1 / 2 ^ 53) = ''999999''"
proof -
  let ?x = "(1 - 1 / 2 ^ 53) * (900000::real)"
  have b1: "binade ?x = 19"
    by (intro binade_eqI) simp_all
  have p: "fl ?x = 900000 - 1 / 2 ^ 33"
    using fl_near [OF b1, of "900000 * 2 ^ 33 - 1"] by (simp add: power_int_minus_divide)
  have b2: "binade (100000 + (900000 - 1 / 2 ^ 33)) = 19"
    by (intro binade_eqI) simp_all
  have s: "fl (100000 + (900000 - 1 / 2 ^ 33)) = 1000000 - 1 / 2 ^ 33"
    using fl_near [OF b2, of "1000000 * 2 ^ 33 - 1"] by (simp add: power_int_minus_divide)
  have "\<lfloor>(1000000::real) - 1 / 2 ^ 33\<rfloor> = 999999"
    by (intro floor_unique) simp_all
  then have "code_number (1 - 1 / 2 ^ 53) = 999999"
    unfolding code_number_def p s by simp
  then show ?thesis by (simp add: gen_code_def toString_def digits_999999)
qed

lemma is_double_max_random: "is_double max_random"
  unfolding max_random_def by (rule is_double_top)

lemma gen_code_max_random: "gen_code max_random = ''999999''"
  unfolding max_random_def by (rule gen_code_top)

lemma gen_code_digits:
  assumes "100000 \<le> code_number r" "code_number r \<le> 999999"
  shows "gen_code r = digits (nat (code_number r))"
    and "length (gen_code r) = 6"
    and "decimal (gen_code r) = nat (code_number r)"
proof -
  from assms(1) show g: "gen_code r = digits (nat (code_number r))"
    by (simp add: gen_code_def toString_def)
  from assms have "10 ^ 5 \<le> nat (code_number r)" "nat (code_number r) < 10 ^ Suc 5"
    by simp_all
  then have "length (digits (nat (code_number r))) = Suc 5" by (rule length_digits)
  with g show "length (gen_code r) = 6" by simp
  from g show "decimal (gen_code r) = nat (code_number r)" by (simp add: decimal_digits)
qed

lemma request_reset_issues:
  assumes "request_reset e r now1 now2 b db = (Response code bd, db')" "code \<noteq> 404" "code \<noteq> 429"
  shows "\<exists>u. findOne (\<lambda>u. email u = b ''email'') db = Some u
      \<and> db' = replace_doc (u\<lparr>resetCode := Some (gen_code r),
                              resetCodeExpires := Some (now2 + 10 * 60 * 1000)\<rparr>) db
      \<and> findOne (\<lambda>u. email u = b ''email'') db'
          = Some (u\<lparr>resetCode := Some (gen_code r), resetCodeExpires := Some (now2 + 10 * 60 * 1000)\<rparr>)"
proof -
  from assms obtain u where u: "findOne (\<lambda>u. email u = b ''email'') db = Some u"
    and db': "db' = replace_doc (u\<lparr>resetCode := Some (gen_code r),
                              resetCodeExpires := Some (now2 + 10 * 60 * 1000)\<rparr>) db"
    unfolding request_reset_def save_def Let_def
    by (auto split: option.splits if_splits sum.splits)
  from findOne_SomeD [OF u] have "email u = b ''email''" by simp
  then have "findOne (\<lambda>u. email u = b ''email'') db'
      = Some (u\<lparr>resetCode := Some (gen_code r), resetCodeExpires := Some (now2 + 10 * 60 * 1000)\<rparr>)"
    unfolding db' by (intro findOne_replace_doc [OF u]) simp_all
  with u db' show ?thesis by blast
qed

lemma ex_request_reset_ok:
  "request_reset ex_env max_random 1000 1001 (ex_body ''x'' ''y'') [ex_user]
     = (Response 200 (SuccessBody True ''Reset code sent to email''),
        [ex_user\<lparr>resetCode := Some ''999999'', resetCodeExpires := Some 601001\<rparr>])"
  by (simp add: request_reset_def findOne_def ex_body_def ex_user_def ex_env_def date_gt_def
      gen_code_max_random save_def validate_def validate_common_def truthy_def replace_doc_def)

text \<open>
  Claim C9. For every double \<open>r\<close> with \<open>0 \<le> r < 1\<close> that the random source returns,
  the generated code is a string of exactly six characters, each a decimal digit, and
  the number it denotes lies between 100000 and 999999; the rounding of the product and
  of the sum to doubles is part of the computation. Whenever the request gets past the
  lookup and the rate limit and is answered, the document stored for the user holds
  that code and the expiry \<open>now2 + 10 * 60 * 1000\<close>, ten minutes after the reading of
  the clock at issuance.
\<close>

theorem C9_code_is_six_digits:
  "is_double r \<and> 0 \<le> r \<and> r < 1
   \<longrightarrow> length (gen_code r) = 6 \<and> (\<forall>c\<in>set (gen_code r). is_digit c)
     \<and> 100000 \<le> decimal (gen_code r) \<and> decimal (gen_code r) \<le> 999999
     \<and> (request_reset e r now1 now2 b db = (Response code bd, db') \<and> code \<noteq> 404 \<and> code \<noteq> 429
         \<longrightarrow> (\<exists>u. findOne (\<lambda>u. email u = b ''email'') db = Some u
               \<and> findOne (\<lambda>u. email u = b ''email'') db'
                   = Some (u\<lparr>resetCode := Some (gen_code r),
                             resetCodeExpires := Some (now2 + 10 * 60 * 1000)\<rparr>)))"
proof (intro impI)
  assume a: "is_double r \<and> 0 \<le> r \<and> r < 1"
  then have range: "100000 \<le> code_number r" "code_number r \<le> 999999"
    using code_number_range by blast+
  note g = gen_code_digits [OF range]
  from g(1) have digit: "\<forall>c\<in>set (gen_code r). is_digit c"
    by (simp add: digits_are_digits)
  from g(3) range have val: "100000 \<le> decimal (gen_code r)" "decimal (gen_code r) \<le> 999999"
    by simp_all
  have issue: "request_reset e r now1 now2 b db = (Response code bd, db') \<and> code \<noteq> 404 \<and> code \<noteq> 429
         \<longrightarrow> (\<exists>u. findOne (\<lambda>u. email u = b ''email'') db = Some u
               \<and> findOne (\<lambda>u. email u = b ''email'') db'
                   = Some (u\<lparr>resetCode := Some (gen_code r),
                             resetCodeExpires := Some (now2 + 10 * 60 * 1000)\<rparr>))"
    using request_reset_issues by blast
  from g(2) digit val issue
  show "length (gen_code r) = 6 \<and> (\<forall>c\<in>set (gen_code r). is_digit c)
     \<and> 100000 \<le> decimal (gen_code r) \<and> decimal (gen_code r) \<le> 999999
     \<and> (request_reset e r now1 now2 b db = (Response code bd, db') \<and> code \<noteq> 404 \<and> code \<noteq> 429
         \<longrightarrow> (\<exists>u. findOne (\<lambda>u. email u = b ''email'') db = Some u
               \<and> findOne (\<lambda>u. email u = b ''email'') db'
                   = Some (u\<lparr>resetCode := Some (gen_code r),
                             resetCodeExpires := Some (now2 + 10 * 60 * 1000)\<rparr>)))"
    by (intro conjI)
qed

theorem C9_code_is_six_digits_witness:
  "is_double max_random \<and> 0 \<le> max_random \<and> max_random < 1
   \<and> gen_code max_random = ''999999''
   \<and> length (gen_code max_random) = 6
   \<and> decimal (gen_code max_random) \<le> 999999
   \<and> request_reset ex_env max_random 1000 1001 (ex_body ''x'' ''y'') [ex_user]
       = (Response 200 (SuccessBody True ''Reset code sent to email''),
          [ex_user\<lparr>resetCode := Some ''999999'', resetCodeExpires := Some 601001\<rparr>])
   \<and> (\<exists>u. findOne (\<lambda>u. email u = ex_body ''x'' ''y'' ''email'') [ex_user] = Some u
         \<and> findOne (\<lambda>u. email u = ex_body ''x'' ''y'' ''email'')
              [ex_user\<lparr>resetCode := Some ''999999'', resetCodeExpires := Some 601001\<rparr>]
            = Some (u\<lparr>resetCode := Some (gen_code max_random),
                      resetCodeExpires := Some (1001 + 10 * 60 * 1000)\<rparr>))"
proof -
  have h: "0 \<le> max_random" "max_random < 1" by (simp_all add: max_random_def)
  have c: "(200::nat) \<noteq> 404" "(200::nat) \<noteq> 429" by simp_all
  from C9_code_is_six_digits [where r = max_random and e = ex_env and ?now1.0 = 1000
      and ?now2.0 = 1001 and b = "ex_body ''x'' ''y''" and db = "[ex_user]" and code = 200
      and bd = "SuccessBody True ''Reset code sent to email''"
      and db' = "[ex_user\<lparr>resetCode := Some ''999999'', resetCodeExpires := Some 601001\<rparr>]"]
    is_double_max_random h c ex_request_reset_ok gen_code_max_random
  show ?thesis by blast
qed

end
